theory Spec2Isabelle
  imports Main
begin

section \<open>JavaScript values\<close>

text \<open>
  A JavaScript string is a sequence of UTF-16 code units. Every literal of
  \<^verbatim>\<open>src/App.jsx\<close> lies in the Basic Multilingual Plane, so one code unit is
  one character; a code unit is a natural number below 65536.
\<close>

type_synonym jsstring = "nat list"

definition ascii :: "string \<Rightarrow> jsstring" where
  "ascii s = map of_char s"

text \<open>
  The values that reach the program: what \<^verbatim>\<open>useState\<close> holds and what the API sends
  back. Numbers are the integer-valued ones; property names are ASCII and are kept
  as \<^typ>\<open>string\<close>. In an object the first binding of a name is the one that is read.
\<close>

datatype jsval =
    Undefined
  | Null
  | Bool bool
  | Num int
  | Str jsstring
  | Arr "jsval list"
  | Obj "(string \<times> jsval) list"

datatype js_error =
    TypeError
  | AxiosError "nat option"

text \<open>\<^verbatim>\<open>!v\<close> is \<open>\<not> truthy v\<close>.\<close>

fun truthy :: "jsval \<Rightarrow> bool" where
  "truthy Undefined = False"
| "truthy Null = False"
| "truthy (Bool b) = b"
| "truthy (Num n) = (n \<noteq> 0)"
| "truthy (Str s) = (s \<noteq> [])"
| "truthy (Arr xs) = True"
| "truthy (Obj fs) = True"

text \<open>\<^verbatim>\<open>v == null\<close>: loose equality with null holds of null and undefined only.\<close>

fun loose_eq_null :: "jsval \<Rightarrow> bool" where
  "loose_eq_null Undefined = True"
| "loose_eq_null Null = True"
| "loose_eq_null v = False"

text \<open>
  \<^verbatim>\<open>v.k\<close>: reading a property of null or undefined throws a TypeError; a missing
  property reads as undefined. The names this program reads (\<^verbatim>\<open>data\<close>, \<^verbatim>\<open>user\<close>,
  \<^verbatim>\<open>count\<close>, \<^verbatim>\<open>items\<close>, \<^verbatim>\<open>id\<close>, \<^verbatim>\<open>is_admin\<close>, \<^verbatim>\<open>email\<close>, \<^verbatim>\<open>password\<close>) are not
  built-in properties of booleans, numbers, strings or arrays.
\<close>

fun get_prop :: "jsval \<Rightarrow> string \<Rightarrow> js_error + jsval" where
  "get_prop Undefined k = Inl TypeError"
| "get_prop Null k = Inl TypeError"
| "get_prop (Obj fs) k = (case map_of fs k of None \<Rightarrow> Inr Undefined | Some v \<Rightarrow> Inr v)"
| "get_prop v k = Inr Undefined"

fun is_object :: "jsval \<Rightarrow> bool" where
  "is_object (Obj fs) = True"
| "is_object v = False"

section \<open>The state of the application\<close>

datatype http_method = GET | POST

datatype request = Request http_method jsstring "jsval option"

text \<open>
  One field for each \<^verbatim>\<open>useState\<close> cell of the components, with the initial value
  the source gives it in \<open>world0\<close>; \<open>cat_deps\<close> is the dependency array React
  remembers for the effect of \<^verbatim>\<open>CategoryPage\<close> (\<open>None\<close> while it is not mounted).
  Three histories record what the program did to the outside: the requests handed
  to axios, the calls of \<^verbatim>\<open>alert\<close> and of \<^verbatim>\<open>navigate\<close>; \<open>loading_writes\<close> records
  the calls of \<^verbatim>\<open>setLoading\<close>.
\<close>

record world =
  user :: jsval
  loading :: bool
  loading_writes :: "bool list"
  cart_count :: jsval
  home_products :: jsval
  home_categories :: jsval
  cat_products :: jsval
  cat_deps :: "jsstring option"
  detail_p :: jsval
  detail_adding :: bool
  cart_items :: jsval
  nav_categories :: jsval
  requests :: "request list"
  alerts :: "jsstring list"
  navigations :: "jsstring list"

definition world0 :: world where
  "world0 = \<lparr> user = Null, loading = True, loading_writes = [],
     cart_count = Num 0, home_products = Arr [], home_categories = Arr [],
     cat_products = Arr [], cat_deps = None,
     detail_p = Null, detail_adding = False,
     cart_items = Arr [], nav_categories = Arr [],
     requests = [], alerts = [], navigations = [] \<rparr>"

section \<open>Computations, promises and axios\<close>

text \<open>
  A piece of JavaScript that runs against the state either returns a value or throws;
  a promise that has settled is the same thing: fulfilled with a value or rejected
  with a reason.
\<close>

type_synonym 'a task = "world \<Rightarrow> (js_error + 'a) \<times> world"

definition js_return :: "'a \<Rightarrow> 'a task" where
  "js_return v w = (Inr v, w)"

definition dot :: "jsval \<Rightarrow> string \<Rightarrow> jsval task" where
  "dot v k w = (get_prop v k, w)"

text \<open>\<^verbatim>\<open>p.then(f)\<close>, and \<^verbatim>\<open>const x = await p; rest\<close> inside an async function.\<close>

definition promise_then :: "'a task \<Rightarrow> ('a \<Rightarrow> 'b task) \<Rightarrow> 'b task" where
  "promise_then p f w =
     (case p w of
        (Inl e, w') \<Rightarrow> (Inl e, w')
      | (Inr a, w') \<Rightarrow> f a w')"

definition await :: "'a task \<Rightarrow> ('a \<Rightarrow> 'b task) \<Rightarrow> 'b task" where
  "await p k = promise_then p k"

text \<open>\<^verbatim>\<open>p.catch(g)\<close>, and \<^verbatim>\<open>try { p } catch (err) { g }\<close>.\<close>

definition promise_catch :: "'a task \<Rightarrow> (js_error \<Rightarrow> 'a task) \<Rightarrow> 'a task" where
  "promise_catch p g w =
     (case p w of
        (Inl e, w') \<Rightarrow> g e w'
      | (Inr a, w') \<Rightarrow> (Inr a, w'))"

text \<open>\<^verbatim>\<open>p.finally(h)\<close>: \<open>h\<close> runs on either outcome, which is passed on unless \<open>h\<close> throws.\<close>

definition promise_finally :: "'a task \<Rightarrow> 'b task \<Rightarrow> 'a task" where
  "promise_finally p h w =
     (case p w of
        (r, w') \<Rightarrow>
          (case h w' of
             (Inl e, w'') \<Rightarrow> (Inl e, w'')
           | (Inr _, w'') \<Rightarrow> (r, w'')))"

text \<open>
  axios is handed a request and, later, the promise settles. The outcome \<open>net\<close> is
  what the network does: \<open>Inl e\<close> when the request fails (no answer, or a status
  outside 2xx), \<open>Inr d\<close> when the server answers with the body \<open>d\<close>; the promise is
  then fulfilled with a response object whose \<^verbatim>\<open>data\<close> is \<open>d\<close> (its other
  properties are never read).
\<close>

definition axios_send :: "http_method \<Rightarrow> jsstring \<Rightarrow> jsval option \<Rightarrow> jsval task" where
  "axios_send m url body w = (Inr Undefined, w\<lparr>requests := requests w @ [Request m url body]\<rparr>)"

definition settle :: "js_error + jsval \<Rightarrow> jsval task" where
  "settle net w = (case net of Inl e \<Rightarrow> (Inl e, w) | Inr d \<Rightarrow> (Inr (Obj [(''data'', d)]), w))"

definition axios_get :: "jsstring \<Rightarrow> js_error + jsval \<Rightarrow> jsval task" where
  "axios_get url net = await (axios_send GET url None) (\<lambda>_. settle net)"

definition axios_post :: "jsstring \<Rightarrow> jsval option \<Rightarrow> js_error + jsval \<Rightarrow> jsval task" where
  "axios_post url body net = await (axios_send POST url body) (\<lambda>_. settle net)"

definition alert :: "jsstring \<Rightarrow> jsval task" where
  "alert msg w = (Inr Undefined, w\<lparr>alerts := alerts w @ [msg]\<rparr>)"

definition navigate :: "jsstring \<Rightarrow> jsval task" where
  "navigate path w = (Inr Undefined, w\<lparr>navigations := navigations w @ [path]\<rparr>)"

section \<open>AuthProvider: the session store\<close>

definition setUser :: "jsval \<Rightarrow> jsval task" where
  "setUser v w = (Inr Undefined, w\<lparr>user := v\<rparr>)"

definition setLoading :: "bool \<Rightarrow> jsval task" where
  "setLoading b w = (Inr Undefined, w\<lparr>loading := b, loading_writes := loading_writes w @ [b]\<rparr>)"

text \<open>
  The effect run once when the provider mounts:
  \<^verbatim>\<open>axios.get('/auth/me').then(r=>{ setUser(r.data); }).catch(()=>{}).finally(()=>setLoading(false))\<close>
\<close>

definition initialize :: "js_error + jsval \<Rightarrow> jsval task" where
  "initialize net =
     promise_finally
       (promise_catch
          (promise_then (axios_get (ascii ''/auth/me'') net)
             (\<lambda>r. await (dot r ''data'') (\<lambda>d. setUser d)))
          (\<lambda>_. js_return Undefined))
       (setLoading False)"

text \<open>
  \<^verbatim>\<open>const login = async ({email,password})=>{
    const r = await axios.post('/auth/login',{email,password})
    setUser(r.data.user)
    return r.data }\<close>
\<close>

definition login :: "jsval \<Rightarrow> js_error + jsval \<Rightarrow> jsval task" where
  "login creds net =
     await (dot creds ''email'') (\<lambda>email.
     await (dot creds ''password'') (\<lambda>password.
     await (axios_post (ascii ''/auth/login'')
               (Some (Obj [(''email'', email), (''password'', password)])) net) (\<lambda>r.
     await (dot r ''data'') (\<lambda>d.
     await (dot d ''user'') (\<lambda>u.
     await (setUser u) (\<lambda>_.
     js_return d))))))"

text \<open>
  \<^verbatim>\<open>const logout = async ()=>{
    await axios.post('/auth/logout')
    setUser(null) }\<close>
\<close>

definition logout :: "js_error + jsval \<Rightarrow> jsval task" where
  "logout net =
     await (axios_post (ascii ''/auth/logout'') None net) (\<lambda>_.
     setUser Null)"

text \<open>
  \<^verbatim>\<open>const register = async (payload)=>{
    const r = await axios.post('/auth/register', payload)
    setUser(r.data.user)
    return r.data }\<close>
\<close>

definition register :: "jsval \<Rightarrow> js_error + jsval \<Rightarrow> jsval task" where
  "register payload net =
     await (axios_post (ascii ''/auth/register'') (Some payload) net) (\<lambda>r.
     await (dot r ''data'') (\<lambda>d.
     await (dot d ''user'') (\<lambda>u.
     await (setUser u) (\<lambda>_.
     js_return d))))"

text \<open>
  \<^verbatim>\<open>ProfileMenu\<close> is where the session is read as logged in or logged out:
  \<^verbatim>\<open>if(!user) return <Link to="/login">...\<close>, otherwise the user's name and the
  logout button.
\<close>

datatype profile_view = LoginLink | UserBox jsval

definition ProfileMenu :: "profile_view task" where
  "ProfileMenu w =
     (if \<not> truthy (user w) then js_return LoginLink w
      else await (dot (user w) ''name'') (\<lambda>n. js_return (UserBox n)) w)"

definition is_logged_in :: "world \<Rightarrow> bool" where
  "is_logged_in w = (fst (ProfileMenu w) \<noteq> Inr LoginLink)"

definition session_consistent :: "world \<Rightarrow> bool" where
  "session_consistent w = ((user w = Null) = (\<not> is_logged_in w))"

section \<open>LoginPage and RegisterPage\<close>

definition login_failed :: jsstring where
  "login_failed = [0x0648, 0x0631, 0x0648, 0x062F, 0x0020, 0x0646, 0x0627, 0x0645, 0x0648, 0x0641, 0x0642]"

definition register_failed :: jsstring where
  "register_failed = [0x062B, 0x0628, 0x062A, 0x200C, 0x0646, 0x0627, 0x0645, 0x0020,
     0x0646, 0x0627, 0x0645, 0x0648, 0x0641, 0x0642]"

text \<open>
  \<^verbatim>\<open>try{ await login({email,password}); navigate('/') }catch(err){ alert(...) }\<close>
\<close>

definition LoginPage_submit :: "jsval \<Rightarrow> jsval \<Rightarrow> js_error + jsval \<Rightarrow> jsval task" where
  "LoginPage_submit email password net =
     promise_catch
       (await (login (Obj [(''email'', email), (''password'', password)]) net) (\<lambda>_.
        navigate (ascii ''/'')))
       (\<lambda>err. alert login_failed)"

definition RegisterPage_submit :: "jsval \<Rightarrow> jsval \<Rightarrow> jsval \<Rightarrow> js_error + jsval \<Rightarrow> jsval task" where
  "RegisterPage_submit name email password net =
     promise_catch
       (await (register (Obj [(''name'', name), (''email'', email), (''password'', password)]) net) (\<lambda>_.
        navigate (ascii ''/'')))
       (\<lambda>err. alert register_failed)"

section \<open>The views that fetch and render\<close>

text \<open>
  A promise written as a statement and not awaited: the code goes on whatever the
  promise does, and a rejection nobody handles is lost.
\<close>

definition fire :: "'a task \<Rightarrow> jsval task" where
  "fire p w = (Inr Undefined, snd (p w))"

text \<open>
  CartIcon: \<^verbatim>\<open>axios.get('/cart/count').then(r=>setCount(r.data.count)).catch(()=>{})\<close>
\<close>

definition setCount :: "jsval \<Rightarrow> jsval task" where
  "setCount v w = (Inr Undefined, w\<lparr>cart_count := v\<rparr>)"

definition CartIcon_effect :: "js_error + jsval \<Rightarrow> jsval task" where
  "CartIcon_effect net =
     promise_catch
       (promise_then (axios_get (ascii ''/cart/count'') net)
          (\<lambda>r. await (dot r ''data'') (\<lambda>d. await (dot d ''count'') (\<lambda>c. setCount c))))
       (\<lambda>_. js_return Undefined)"

text \<open>
  Home:
  \<^verbatim>\<open>axios.get('/categories').then(r=>setCategories(r.data)).catch(()=>{})
  axios.get('/products?limit=24').then(r=>setProducts(r.data)).catch(()=>{})\<close>
\<close>

definition setHomeCategories :: "jsval \<Rightarrow> jsval task" where
  "setHomeCategories v w = (Inr Undefined, w\<lparr>home_categories := v\<rparr>)"

definition setHomeProducts :: "jsval \<Rightarrow> jsval task" where
  "setHomeProducts v w = (Inr Undefined, w\<lparr>home_products := v\<rparr>)"

definition Home_categories_fetch :: "js_error + jsval \<Rightarrow> jsval task" where
  "Home_categories_fetch net =
     promise_catch
       (promise_then (axios_get (ascii ''/categories'') net)
          (\<lambda>r. await (dot r ''data'') (\<lambda>d. setHomeCategories d)))
       (\<lambda>_. js_return Undefined)"

definition Home_products_fetch :: "js_error + jsval \<Rightarrow> jsval task" where
  "Home_products_fetch net =
     promise_catch
       (promise_then (axios_get (ascii ''/products?limit=24'') net)
          (\<lambda>r. await (dot r ''data'') (\<lambda>d. setHomeProducts d)))
       (\<lambda>_. js_return Undefined)"

definition Home_effect :: "js_error + jsval \<Rightarrow> js_error + jsval \<Rightarrow> jsval task" where
  "Home_effect net_categories net_products =
     await (fire (Home_categories_fetch net_categories)) (\<lambda>_.
     fire (Home_products_fetch net_products))"

text \<open>
  CategoryPage:
  \<^verbatim>\<open>const {id} = useParams()
  useEffect(()=>{ axios.get(`/categories/${id}/products`).then(r=>setProducts(r.data)).catch(()=>{}) },[id])\<close>
  The route \<^verbatim>\<open>/category/:id\<close> gives \<^verbatim>\<open>id\<close> as a string.
\<close>

definition setCatProducts :: "jsval \<Rightarrow> jsval task" where
  "setCatProducts v w = (Inr Undefined, w\<lparr>cat_products := v\<rparr>)"

definition category_products_url :: "jsstring \<Rightarrow> jsstring" where
  "category_products_url cid = ascii ''/categories/'' @ cid @ ascii ''/products''"

definition CategoryPage_effect :: "jsstring \<Rightarrow> js_error + jsval \<Rightarrow> jsval task" where
  "CategoryPage_effect cid net =
     promise_catch
       (promise_then (axios_get (category_products_url cid) net)
          (\<lambda>r. await (dot r ''data'') (\<lambda>d. setCatProducts d)))
       (\<lambda>_. js_return Undefined)"

text \<open>
  React runs an effect with the dependency array \<^verbatim>\<open>[id]\<close> after the first render of
  the component and after every later render in which \<^verbatim>\<open>id\<close> differs from its value
  at the render before. One render of the mounted page with the parameter \<open>cid\<close>;
  \<open>net\<close> is what the network does if the effect runs.
\<close>

definition CategoryPage_render :: "jsstring \<Rightarrow> js_error + jsval \<Rightarrow> world \<Rightarrow> world" where
  "CategoryPage_render cid net w =
     (if cat_deps w = Some cid then w
      else snd (CategoryPage_effect cid net (w\<lparr>cat_deps := Some cid\<rparr>)))"

fun CategoryPage_renders :: "(jsstring \<times> (js_error + jsval)) list \<Rightarrow> world \<Rightarrow> world" where
  "CategoryPage_renders [] w = w"
| "CategoryPage_renders ((cid, net) # rs) w = CategoryPage_renders rs (CategoryPage_render cid net w)"

text \<open>
  ProductDetails:
  \<^verbatim>\<open>useEffect(()=>{ axios.get(`/products/${id}`).then(r=>setP(r.data)).catch(()=>{}) },[id])
  if(!p) return <div className="p-6">...</div>
  const addToCart = async ()=>{
    setAdding(true)
    await axios.post('/cart/add',{product_id:p.id, qty:1}).catch(()=>{})
    setAdding(false) }
  ... <button onClick={addToCart} disabled={adding} ...>\<close>
\<close>

definition setP :: "jsval \<Rightarrow> jsval task" where
  "setP v w = (Inr Undefined, w\<lparr>detail_p := v\<rparr>)"

definition setAdding :: "bool \<Rightarrow> jsval task" where
  "setAdding b w = (Inr Undefined, w\<lparr>detail_adding := b\<rparr>)"

definition ProductDetails_effect :: "jsstring \<Rightarrow> js_error + jsval \<Rightarrow> jsval task" where
  "ProductDetails_effect pid net =
     promise_catch
       (promise_then (axios_get (ascii ''/products/'' @ pid) net)
          (\<lambda>r. await (dot r ''data'') (\<lambda>d. setP d)))
       (\<lambda>_. js_return Undefined)"






text \<open>
  CartPage: \<^verbatim>\<open>axios.get('/cart').then(r=>setItems(r.data.items)).catch(()=>{})\<close>
\<close>

definition setItems :: "jsval \<Rightarrow> jsval task" where
  "setItems v w = (Inr Undefined, w\<lparr>cart_items := v\<rparr>)"

definition CartPage_effect :: "js_error + jsval \<Rightarrow> jsval task" where
  "CartPage_effect net =
     promise_catch
       (promise_then (axios_get (ascii ''/cart'') net)
          (\<lambda>r. await (dot r ''data'') (\<lambda>d. await (dot d ''items'') (\<lambda>i. setItems i))))
       (\<lambda>_. js_return Undefined)"

text \<open>
  App:
  \<^verbatim>\<open>axios.get('/categories/navigation').then(r=>setCategories(r.data)).catch(()=>{
    setCategories([{id:'1',name:..., children:[{id:'11',name:...},{id:'12',name:...}]},{id:'2',name:...}])
  })\<close>
\<close>

definition setNavCategories :: "jsval \<Rightarrow> jsval task" where
  "setNavCategories v w = (Inr Undefined, w\<lparr>nav_categories := v\<rparr>)"

definition fallback_categories :: jsval where
  "fallback_categories =
     Arr [Obj [(''id'', Str (ascii ''1'')),
               (''name'', Str [0x0632, 0x06CC, 0x0648, 0x0631, 0x0622, 0x0644, 0x0627, 0x062A]),
               (''children'',
                  Arr [Obj [(''id'', Str (ascii ''11'')),
                            (''name'', Str [0x06AF, 0x0631, 0x062F, 0x0646, 0x0628, 0x0646, 0x062F])],
                       Obj [(''id'', Str (ascii ''12'')),
                            (''name'', Str [0x0627, 0x0646, 0x06AF, 0x0634, 0x062A, 0x0631])]])],
          Obj [(''id'', Str (ascii ''2'')),
               (''name'', Str [0x0633, 0x06A9, 0x0647])]]"

definition App_effect :: "js_error + jsval \<Rightarrow> jsval task" where
  "App_effect net =
     promise_catch
       (promise_then (axios_get (ascii ''/categories/navigation'') net)
          (\<lambda>r. await (dot r ''data'') (\<lambda>d. setNavCategories d)))
       (\<lambda>_. setNavCategories fallback_categories)"

section \<open>AdminPanel\<close>

text \<open>
  \<^verbatim>\<open>const {user} = useAuth()
  if(!user || !user.is_admin) return <div className="p-6">...</div>\<close>
  and otherwise the landing page with its two links. The component has no effect and
  no handler: rendering it leaves the state as it is.
\<close>

datatype admin_view = AccessDenied | AdminLanding

definition AdminPanel :: "admin_view task" where
  "AdminPanel w =
     (if \<not> truthy (user w) then js_return AccessDenied w
      else await (dot (user w) ''is_admin'') (\<lambda>a.
             if \<not> truthy a then js_return AccessDenied else js_return AdminLanding) w)"

section \<open>formatPrice\<close>

text \<open>
  \<^verbatim>\<open>function formatPrice(v){ if(v==null) return '\<dots>'; return new Intl.NumberFormat('fa-IR').format(v) + ' \<dots>' }\<close>
  The first literal is the em dash U+2014; the second is a space and the five
  letters of the currency's name. \<^verbatim>\<open>Intl.NumberFormat('fa-IR').format\<close> belongs to
  the platform, not to this program: it is the parameter \<open>fmt\<close>.
\<close>

definition dash :: jsstring where
  "dash = [0x2014]"

definition toman :: jsstring where
  "toman = [0x0020, 0x062A, 0x0648, 0x0645, 0x0627, 0x0646]"

definition formatPrice :: "(jsval \<Rightarrow> jsstring) \<Rightarrow> jsval \<Rightarrow> jsstring" where
  "formatPrice fmt v = (if loose_eq_null v then dash else fmt v @ toman)"

text \<open>
  What the platform's formatter gives in the locale fa-IR (Unicode CLDR) for a
  non-negative integer that a JavaScript number holds exactly (below \<open>2 ^ 53\<close>):
  the decimal digits written with the Persian digits U+06F0 to U+06F9, in groups of
  three counted from the right, the groups separated by U+066C. It is a reference
  for single values of the formatter; numbers in general are IEEE doubles and are
  formatted by the platform from their shortest decimal form, which is not modelled.
\<close>

fun decimal_digits :: "nat \<Rightarrow> nat list" where
  "decimal_digits n = (if n < 10 then [n] else decimal_digits (n div 10) @ [n mod 10])"

declare decimal_digits.simps [simp del]

fun group3 :: "nat list \<Rightarrow> nat list" where
  "group3 (a # b # c # d # ds) = a # b # c # 0x066C # group3 (d # ds)"
| "group3 ds = ds"

definition fa_IR_nat :: "nat \<Rightarrow> jsstring" where
  "fa_IR_nat n = rev (group3 (rev (map (\<lambda>d. 0x06F0 + d) (decimal_digits n))))"

section \<open>Unfolding the plumbing\<close>

lemmas task_defs = js_return_def dot_def promise_then_def await_def promise_catch_def
  promise_finally_def axios_send_def settle_def axios_get_def axios_post_def alert_def
  navigate_def fire_def

lemmas setter_defs = setUser_def setLoading_def setCount_def setHomeCategories_def
  setHomeProducts_def setCatProducts_def setP_def setAdding_def setItems_def
  setNavCategories_def

lemma truthy_get_prop: "truthy v \<Longrightarrow> \<exists>x. get_prop v k = Inr x"
  by (cases v) (simp_all split: option.splits)

lemma not_null_get_prop: "\<not> loose_eq_null v \<Longrightarrow> \<exists>x. get_prop v k = Inr x"
  by (cases v) (simp_all split: option.splits)

section \<open>The session store\<close>

lemma logout_fulfilled:
  "logout (Inr d) w =
     (Inr Undefined,
      w\<lparr>requests := requests w @ [Request POST (ascii ''/auth/logout'') None], user := Null\<rparr>)"
  by (simp add: logout_def task_defs setter_defs)

lemma logout_rejected:
  "logout (Inl e) w =
     (Inl e, w\<lparr>requests := requests w @ [Request POST (ascii ''/auth/logout'') None]\<rparr>)"
  by (simp add: logout_def task_defs setter_defs)

lemma initialize_fulfilled:
  "initialize (Inr d) w =
     (Inr Undefined,
      w\<lparr>requests := requests w @ [Request GET (ascii ''/auth/me'') None], user := d,
        loading := False, loading_writes := loading_writes w @ [False]\<rparr>)"
  by (simp add: initialize_def task_defs setter_defs)

lemma initialize_rejected:
  "initialize (Inl e) w =
     (Inr Undefined,
      w\<lparr>requests := requests w @ [Request GET (ascii ''/auth/me'') None],
        loading := False, loading_writes := loading_writes w @ [False]\<rparr>)"
  by (simp add: initialize_def task_defs setter_defs)

lemma login_fulfilled:
  assumes "get_prop creds ''email'' = Inr em" and "get_prop creds ''password'' = Inr pw"
    and "get_prop d ''user'' = Inr u"
  shows "login creds (Inr d) w =
     (Inr d,
      w\<lparr>requests := requests w @
           [Request POST (ascii ''/auth/login'') (Some (Obj [(''email'', em), (''password'', pw)]))],
        user := u\<rparr>)"
  using assms by (simp add: login_def task_defs setter_defs)

lemma login_rejected:
  assumes "get_prop creds ''email'' = Inr em" and "get_prop creds ''password'' = Inr pw"
  shows "login creds (Inl e) w =
     (Inl e,
      w\<lparr>requests := requests w @
           [Request POST (ascii ''/auth/login'') (Some (Obj [(''email'', em), (''password'', pw)]))]\<rparr>)"
  using assms by (simp add: login_def task_defs setter_defs)

lemma register_fulfilled:
  assumes "get_prop d ''user'' = Inr u"
  shows "register payload (Inr d) w =
     (Inr d,
      w\<lparr>requests := requests w @ [Request POST (ascii ''/auth/register'') (Some payload)],
        user := u\<rparr>)"
  using assms by (simp add: register_def task_defs setter_defs)

lemma register_rejected:
  "register payload (Inl e) w =
     (Inl e, w\<lparr>requests := requests w @ [Request POST (ascii ''/auth/register'') (Some payload)]\<rparr>)"
  by (simp add: register_def task_defs setter_defs)

lemma login_throws_user:
  "fst (login creds net w) = Inl x \<Longrightarrow> user (snd (login creds net w)) = user w"
  by (auto simp add: login_def task_defs setter_defs split: sum.splits prod.splits)

lemma register_throws_user:
  "fst (register payload net w) = Inl x \<Longrightarrow> user (snd (register payload net w)) = user w"
  by (auto simp add: register_def task_defs setter_defs split: sum.splits prod.splits)

lemma login_returns_user:
  "fst (login creds net w) = Inr y \<Longrightarrow>
     (\<exists>d. net = Inr d \<and> y = d \<and> get_prop d ''user'' = Inr (user (snd (login creds net w))))"
  by (auto simp add: login_def task_defs setter_defs split: sum.splits prod.splits)

lemma register_returns_user:
  "fst (register payload net w) = Inr y \<Longrightarrow>
     (\<exists>d. net = Inr d \<and> y = d \<and> get_prop d ''user'' = Inr (user (snd (register payload net w))))"
  by (auto simp add: register_def task_defs setter_defs split: sum.splits prod.splits)

text \<open>
  C1, as the code has it. \<^verbatim>\<open>logout\<close> awaits the request before it clears the user:
  when the server answers, the stored user is null afterwards; when the request
  fails, the promise of \<^verbatim>\<open>logout\<close> is rejected with the same error, \<^verbatim>\<open>setUser(null)\<close>
  is not reached and the stored user is what it was. Either way exactly one
  request, POST /auth/logout, has been made.
\<close>

theorem logout_clears_user_when_request_succeeds:
  "user (snd (logout (Inr d) w)) = Null
   \<and> fst (logout (Inr d) w) = Inr Undefined
   \<and> fst (logout (Inl e) w) = Inl e
   \<and> user (snd (logout (Inl e) w)) = user w
   \<and> requests (snd (logout net w)) = requests w @ [Request POST (ascii ''/auth/logout'') None]"
  by (cases net) (simp_all add: logout_fulfilled logout_rejected)

text \<open>
  C1 as the specification states it, that the user is absent after logout whether or
  not the request succeeds, is false: a logged-in user whose logout request fails
  stays stored.
\<close>

theorem logout_failure_keeps_user:
  "user (snd (logout (Inl (AxiosError None))
      (world0\<lparr>user := Obj [(''name'', Str (ascii ''sara'')), (''is_admin'', Bool False)]\<rparr>))) \<noteq> Null"
  by (simp add: logout_rejected)

text \<open>
  C2. The session probe run when the provider mounts. Whatever the network does, the
  promise chain ends fulfilled, \<^verbatim>\<open>setLoading\<close> is called exactly once, with false, and
  the flag is false afterwards. When the server answers, the body of the answer is
  the stored user; when the request fails the stored user is not written, so from
  the state at mount (user null, loading true) the user is null and the flag has
  gone from true to false.
\<close>

theorem initialize_settles_loading_once:
  "user (snd (initialize (Inr d) w)) = d
   \<and> user (snd (initialize (Inl e) w)) = user w
   \<and> user world0 = Null \<and> loading world0 = True
   \<and> user (snd (initialize (Inl e) world0)) = Null
   \<and> loading (snd (initialize net w)) = False
   \<and> loading_writes (snd (initialize net w)) = loading_writes w @ [False]
   \<and> loading_writes (snd (initialize net world0)) = [False]
   \<and> fst (initialize net w) = Inr Undefined"
  by (cases net) (simp_all add: initialize_fulfilled initialize_rejected world0_def)

text \<open>
  C3. \<^verbatim>\<open>login\<close> and \<^verbatim>\<open>register\<close>. The argument of \<^verbatim>\<open>login\<close> is destructured, so it
  is an object (here: its two properties can be read), and the body \<open>d\<close> of a
  successful answer has a property \<^verbatim>\<open>user\<close> that can be read, with value \<open>u\<close>. Then
  on success the stored user is \<open>u\<close> and the caller gets the whole body \<open>d\<close>; on
  failure the caller gets the error of the request and nothing of the state changes
  but the history of requests. More generally, whenever either function throws, for
  whatever reason, the stored user is the one from before.
\<close>

theorem login_register_contract:
  assumes "get_prop creds ''email'' = Inr em" and "get_prop creds ''password'' = Inr pw"
    and "get_prop d ''user'' = Inr u"
  shows "login creds (Inr d) w =
           (Inr d,
            w\<lparr>requests := requests w @
                 [Request POST (ascii ''/auth/login'') (Some (Obj [(''email'', em), (''password'', pw)]))],
              user := u\<rparr>)
       \<and> login creds (Inl e) w =
           (Inl e,
            w\<lparr>requests := requests w @
                 [Request POST (ascii ''/auth/login'') (Some (Obj [(''email'', em), (''password'', pw)]))]\<rparr>)
       \<and> register payload (Inr d) w =
           (Inr d,
            w\<lparr>requests := requests w @ [Request POST (ascii ''/auth/register'') (Some payload)],
              user := u\<rparr>)
       \<and> register payload (Inl e) w =
           (Inl e,
            w\<lparr>requests := requests w @ [Request POST (ascii ''/auth/register'') (Some payload)]\<rparr>)
       \<and> (\<forall>c n x. fst (login c n w) = Inl x \<longrightarrow> user (snd (login c n w)) = user w)
       \<and> (\<forall>p n x. fst (register p n w) = Inl x \<longrightarrow> user (snd (register p n w)) = user w)"
  using assms
  by (simp add: login_fulfilled login_rejected register_fulfilled register_rejected
      login_throws_user register_throws_user)

theorem login_register_contract_witness:
  "get_prop (Obj [(''email'', Str (ascii ''a@b.c'')), (''password'', Str (ascii ''pw''))]) ''email''
     = Inr (Str (ascii ''a@b.c''))
   \<and> get_prop (Obj [(''user'', Obj [(''name'', Str (ascii ''sara''))]), (''token'', Num 7)]) ''user''
     = Inr (Obj [(''name'', Str (ascii ''sara''))])
   \<and> user (snd (login (Obj [(''email'', Str (ascii ''a@b.c'')), (''password'', Str (ascii ''pw''))])
        (Inr (Obj [(''user'', Obj [(''name'', Str (ascii ''sara''))]), (''token'', Num 7)])) world0))
     = Obj [(''name'', Str (ascii ''sara''))]
   \<and> fst (login (Obj [(''email'', Str (ascii ''a@b.c'')), (''password'', Str (ascii ''pw''))])
        (Inr (Obj [(''user'', Obj [(''name'', Str (ascii ''sara''))]), (''token'', Num 7)])) world0)
     = Inr (Obj [(''user'', Obj [(''name'', Str (ascii ''sara''))]), (''token'', Num 7)])
   \<and> login (Obj [(''email'', Str (ascii ''a@b.c'')), (''password'', Str (ascii ''pw''))])
        (Inl (AxiosError (Some 401))) world0
     = (Inl (AxiosError (Some 401)),
        world0\<lparr>requests := [Request POST (ascii ''/auth/login'')
          (Some (Obj [(''email'', Str (ascii ''a@b.c'')), (''password'', Str (ascii ''pw''))]))]\<rparr>)
   \<and> user (snd (register Null
        (Inr (Obj [(''user'', Obj [(''name'', Str (ascii ''sara''))]), (''token'', Num 7)])) world0))
     = Obj [(''name'', Str (ascii ''sara''))]
   \<and> user (snd (register Null (Inl (AxiosError None)) world0)) = user world0"
  using login_register_contract
    [of "Obj [(''email'', Str (ascii ''a@b.c'')), (''password'', Str (ascii ''pw''))]"
        "Str (ascii ''a@b.c'')" "Str (ascii ''pw'')"
        "Obj [(''user'', Obj [(''name'', Str (ascii ''sara''))]), (''token'', Num 7)]"
        "Obj [(''name'', Str (ascii ''sara''))]" world0 "AxiosError (Some 401)" Null]
    login_register_contract
    [of "Obj [(''email'', Str (ascii ''a@b.c'')), (''password'', Str (ascii ''pw''))]"
        "Str (ascii ''a@b.c'')" "Str (ascii ''pw'')"
        "Obj [(''user'', Obj [(''name'', Str (ascii ''sara''))]), (''token'', Num 7)]"
        "Obj [(''name'', Str (ascii ''sara''))]" world0 "AxiosError None" Null]
  by (simp add: world0_def)

section \<open>Properties of formatPrice\<close>

lemma fa_IR_nat_examples:
  "fa_IR_nat 0 = [0x06F0]"
  "fa_IR_nat 999 = [0x06F9, 0x06F9, 0x06F9]"
  "fa_IR_nat 1000 = [0x06F1, 0x066C, 0x06F0, 0x06F0, 0x06F0]"
  "fa_IR_nat 1234567 = [0x06F1, 0x066C, 0x06F2, 0x06F3, 0x06F4, 0x066C, 0x06F5, 0x06F6, 0x06F7]"
  by (simp_all add: fa_IR_nat_def decimal_digits.simps)

lemma formatPrice_present: "\<not> loose_eq_null v \<Longrightarrow> formatPrice fmt v = fmt v @ toman"
  by (simp add: formatPrice_def)

lemma formatPrice_is_dash: "(formatPrice fmt v = dash) = loose_eq_null v"
proof (cases "loose_eq_null v")
  case True
  then show ?thesis by (simp add: formatPrice_def)
next
  case False
  have "length (fmt v @ toman) \<noteq> length dash"
    by (simp add: toman_def dash_def)
  then have "fmt v @ toman \<noteq> dash" by metis
  with False show ?thesis by (simp add: formatPrice_def)
qed

text \<open>
  C10. The test is \<^verbatim>\<open>v == null\<close>, not \<^verbatim>\<open>!v\<close>: the number 0 is a price like any
  other and gives the formatter's text for 0 followed by the label, which with a
  formatter of the locale fa-IR is the Persian digit zero, a space and the label.
  The dash is the result for null and undefined and for no other value.
\<close>

theorem formatPrice_zero_is_a_price:
  "formatPrice fmt (Num 0) = fmt (Num 0) @ toman
   \<and> formatPrice fmt (Num 0) \<noteq> dash
   \<and> (formatPrice fmt v = dash) = (v = Null \<or> v = Undefined)
   \<and> (fmt (Num 0) = fa_IR_nat 0 \<longrightarrow>
        formatPrice fmt (Num 0) = [0x06F0, 0x0020, 0x062A, 0x0648, 0x0645, 0x0627, 0x0646])"
proof -
  have "loose_eq_null v = (v = Null \<or> v = Undefined)"
    by (cases v) simp_all
  then have "(formatPrice fmt v = dash) = (v = Null \<or> v = Undefined)"
    using formatPrice_is_dash [of fmt v] by simp
  moreover have "formatPrice fmt (Num 0) \<noteq> dash"
    using formatPrice_is_dash [of fmt "Num 0"] by simp
  ultimately show ?thesis
    by (simp add: formatPrice_present fa_IR_nat_examples toman_def)
qed

theorem formatPrice_zero_is_a_price_witness:
  "(\<lambda>v. case v of Num n \<Rightarrow> fa_IR_nat (nat n) | _ \<Rightarrow> []) (Num 0) = fa_IR_nat 0
   \<and> formatPrice (\<lambda>v. case v of Num n \<Rightarrow> fa_IR_nat (nat n) | _ \<Rightarrow> []) (Num 0) =
       [0x06F0, 0x0020, 0x062A, 0x0648, 0x0645, 0x0627, 0x0646]
   \<and> formatPrice (\<lambda>v. case v of Num n \<Rightarrow> fa_IR_nat (nat n) | _ \<Rightarrow> []) (Num 0) \<noteq> [0x2014]"
proof -
  let ?fmt = "\<lambda>v. case v of Num n \<Rightarrow> fa_IR_nat (nat n) | _ \<Rightarrow> []"
  have h: "?fmt (Num 0) = fa_IR_nat 0" by simp
  note t = formatPrice_zero_is_a_price [of ?fmt Null]
  from t have a: "formatPrice ?fmt (Num 0) \<noteq> dash" by blast
  from t h have b: "formatPrice ?fmt (Num 0) = [0x06F0, 0x0020, 0x062A, 0x0648, 0x0645, 0x0627, 0x0646]"
    by blast
  have c: "formatPrice ?fmt (Num 0) \<noteq> [0x2014]" using a unfolding dash_def .
  from h b c show ?thesis by blast
qed

section \<open>Add to cart\<close>






section \<open>The admin view\<close>

lemma AdminPanel_renders_only: "snd (AdminPanel w) = w"
  by (cases "get_prop (user w) ''is_admin''") (simp_all add: AdminPanel_def task_defs)

lemma AdminPanel_landing:
  "(fst (AdminPanel w) = Inr AdminLanding) =
     (truthy (user w) \<and> (\<exists>a. get_prop (user w) ''is_admin'' = Inr a \<and> truthy a))"
  by (cases "get_prop (user w) ''is_admin''") (auto simp add: AdminPanel_def task_defs)

text \<open>
  C6. With no user (null, or undefined), or with a user whose \<^verbatim>\<open>is_admin\<close> is false,
  the admin view is the access-denied message, and rendering it changes nothing:
  in particular no request is made.
\<close>

theorem AdminPanel_denies_non_admin:
  assumes "loose_eq_null (user w) \<or> get_prop (user w) ''is_admin'' = Inr (Bool False)"
  shows "AdminPanel w = (Inr AccessDenied, w) \<and> requests (snd (AdminPanel w)) = requests w"
proof -
  have "fst (AdminPanel w) = Inr AccessDenied"
    using assms
  proof
    assume "loose_eq_null (user w)"
    then have "\<not> truthy (user w)" by (cases "user w") simp_all
    then show ?thesis by (simp add: AdminPanel_def task_defs)
  next
    assume "get_prop (user w) ''is_admin'' = Inr (Bool False)"
    then show ?thesis by (simp add: AdminPanel_def task_defs)
  qed
  then show ?thesis
    using AdminPanel_renders_only [of w] by (cases "AdminPanel w") simp
qed

theorem AdminPanel_denies_non_admin_witness:
  "loose_eq_null (user world0)
   \<and> AdminPanel world0 = (Inr AccessDenied, world0)
   \<and> get_prop (user (world0\<lparr>user := Obj [(''name'', Str (ascii ''sara'')), (''is_admin'', Bool False)]\<rparr>))
        ''is_admin'' = Inr (Bool False)
   \<and> AdminPanel (world0\<lparr>user := Obj [(''name'', Str (ascii ''sara'')), (''is_admin'', Bool False)]\<rparr>)
      = (Inr AccessDenied,
         world0\<lparr>user := Obj [(''name'', Str (ascii ''sara'')), (''is_admin'', Bool False)]\<rparr>)"
proof -
  let ?w = "world0\<lparr>user := Obj [(''name'', Str (ascii ''sara'')), (''is_admin'', Bool False)]\<rparr>"
  have a: "loose_eq_null (user world0)" by (simp add: world0_def)
  have b: "get_prop (user ?w) ''is_admin'' = Inr (Bool False)" by simp
  from a have a': "loose_eq_null (user world0) \<or> get_prop (user world0) ''is_admin'' = Inr (Bool False)"
    by blast
  from b have b': "loose_eq_null (user ?w) \<or> get_prop (user ?w) ''is_admin'' = Inr (Bool False)"
    by blast
  from a b AdminPanel_denies_non_admin [OF a'] AdminPanel_denies_non_admin [OF b']
  show ?thesis by blast
qed

section \<open>Failed reads\<close>

lemma CartIcon_effect_rejected:
  "CartIcon_effect (Inl e) w =
     (Inr Undefined, w\<lparr>requests := requests w @ [Request GET (ascii ''/cart/count'') None]\<rparr>)"
  by (simp add: CartIcon_effect_def task_defs setter_defs)

lemma Home_categories_fetch_rejected:
  "Home_categories_fetch (Inl e) w =
     (Inr Undefined, w\<lparr>requests := requests w @ [Request GET (ascii ''/categories'') None]\<rparr>)"
  by (simp add: Home_categories_fetch_def task_defs setter_defs)

lemma Home_products_fetch_rejected:
  "Home_products_fetch (Inl e) w =
     (Inr Undefined, w\<lparr>requests := requests w @ [Request GET (ascii ''/products?limit=24'') None]\<rparr>)"
  by (simp add: Home_products_fetch_def task_defs setter_defs)

lemma Home_effect_rejected:
  "Home_effect (Inl e) (Inl e') w =
     (Inr Undefined,
      w\<lparr>requests := requests w @
         [Request GET (ascii ''/categories'') None, Request GET (ascii ''/products?limit=24'') None]\<rparr>)"
  by (simp add: Home_effect_def fire_def await_def promise_then_def
      Home_categories_fetch_rejected Home_products_fetch_rejected)

lemma CategoryPage_effect_rejected:
  "CategoryPage_effect cid (Inl e) w =
     (Inr Undefined, w\<lparr>requests := requests w @ [Request GET (category_products_url cid) None]\<rparr>)"
  by (simp add: CategoryPage_effect_def task_defs setter_defs)

lemma ProductDetails_effect_rejected:
  "ProductDetails_effect pid (Inl e) w =
     (Inr Undefined, w\<lparr>requests := requests w @ [Request GET (ascii ''/products/'' @ pid) None]\<rparr>)"
  by (simp add: ProductDetails_effect_def task_defs setter_defs)

lemma CartPage_effect_rejected:
  "CartPage_effect (Inl e) w =
     (Inr Undefined, w\<lparr>requests := requests w @ [Request GET (ascii ''/cart'') None]\<rparr>)"
  by (simp add: CartPage_effect_def task_defs setter_defs)

lemma App_effect_rejected:
  "App_effect (Inl e) w =
     (Inr Undefined,
      w\<lparr>requests := requests w @ [Request GET (ascii ''/categories/navigation'') None],
        nav_categories := fallback_categories\<rparr>)"
  by (simp add: App_effect_def task_defs setter_defs)

text \<open>
  C7, as the code has it. When the request of a read fails, the promise chain still
  ends fulfilled, one request has been made and no other, and nothing else of the
  state changes: no alert, and the data of the view is what it was (its initial,
  empty value if nothing had been loaded). That holds of the cart count, the two
  fetches of the home page, the products of a category, the product detail and the
  cart. The category navigation differs in one point: its handler for the failure
  stores a built-in menu of two categories.
\<close>

theorem failed_reads_change_nothing_but_navigation:
  "CartIcon_effect (Inl e) w =
     (Inr Undefined, w\<lparr>requests := requests w @ [Request GET (ascii ''/cart/count'') None]\<rparr>)
   \<and> Home_effect (Inl e) (Inl e') w =
     (Inr Undefined,
      w\<lparr>requests := requests w @
         [Request GET (ascii ''/categories'') None, Request GET (ascii ''/products?limit=24'') None]\<rparr>)
   \<and> CategoryPage_effect cid (Inl e) w =
     (Inr Undefined, w\<lparr>requests := requests w @ [Request GET (category_products_url cid) None]\<rparr>)
   \<and> ProductDetails_effect pid (Inl e) w =
     (Inr Undefined, w\<lparr>requests := requests w @ [Request GET (ascii ''/products/'' @ pid) None]\<rparr>)
   \<and> CartPage_effect (Inl e) w =
     (Inr Undefined, w\<lparr>requests := requests w @ [Request GET (ascii ''/cart'') None]\<rparr>)
   \<and> App_effect (Inl e) w =
     (Inr Undefined,
      w\<lparr>requests := requests w @ [Request GET (ascii ''/categories/navigation'') None],
        nav_categories := fallback_categories\<rparr>)
   \<and> alerts (snd (App_effect (Inl e) w)) = alerts w"
  by (simp add: CartIcon_effect_rejected Home_effect_rejected CategoryPage_effect_rejected
      ProductDetails_effect_rejected CartPage_effect_rejected App_effect_rejected)

text \<open>
  C7 as the specification states it, that the data of every read path stays at its
  empty value after a failed request, is false of the category navigation: from the
  initial state, where the navigation is the empty array, a failed request leaves
  the fallback menu.
\<close>

theorem navigation_failure_stores_fallback:
  "nav_categories world0 = Arr []
   \<and> nav_categories (snd (App_effect (Inl (AxiosError None)) world0)) \<noteq> Arr []"
  by (simp add: App_effect_rejected fallback_categories_def world0_def)

section \<open>Logged in or logged out\<close>

lemma is_logged_in_truthy: "is_logged_in w = truthy (user w)"
proof (cases "truthy (user w)")
  case True
  then obtain n where "get_prop (user w) ''name'' = Inr n"
    using truthy_get_prop by blast
  with True show ?thesis
    by (simp add: is_logged_in_def ProfileMenu_def task_defs)
next
  case False
  then show ?thesis
    by (simp add: is_logged_in_def ProfileMenu_def task_defs)
qed

lemma session_consistent_user:
  "session_consistent w = (user w = Null \<or> truthy (user w))"
  by (cases "user w") (simp_all add: session_consistent_def is_logged_in_truthy)

lemma session_consistent_same_user:
  "user w' = user w \<Longrightarrow> session_consistent w' = session_consistent w"
  by (simp add: session_consistent_user)

lemma is_object_truthy: "is_object v \<Longrightarrow> truthy v"
  by (cases v) simp_all

lemma login_user_after:
  assumes "get_prop d ''user'' = Inr u"
  shows "user (snd (login creds (Inr d) w)) = user w \<or> user (snd (login creds (Inr d) w)) = u"
proof (cases "fst (login creds (Inr d) w)")
  case (Inl x)
  then show ?thesis using login_throws_user by blast
next
  case (Inr y)
  then have "get_prop d ''user'' = Inr (user (snd (login creds (Inr d) w)))"
    using login_returns_user [of creds "Inr d" w y] by simp
  with assms show ?thesis by simp
qed

lemma login_rejected_user: "user (snd (login creds (Inl e) w)) = user w"
proof (cases "fst (login creds (Inl e) w)")
  case (Inl x)
  then show ?thesis using login_throws_user by blast
next
  case (Inr y)
  then show ?thesis using login_returns_user [of creds "Inl e" w y] by simp
qed

text \<open>
  C8, as the code has it. The session counts as logged out where \<^verbatim>\<open>ProfileMenu\<close>
  shows the login link, that is where \<^verbatim>\<open>!user\<close>; the store writes null for no
  user. The two agree in the initial state. The store keeps what the API returns
  without looking at it, so after a successful probe they agree exactly when the
  returned value is null or truthy; and when every user value that the API returns
  is null or truthy (a user object is), each operation of the store keeps them in
  agreement: the probe at mount, login and register with any argument, logout, on
  success and on failure.
\<close>

theorem session_consistent_preserved:
  assumes "session_consistent w" and "me = Null \<or> truthy me"
    and "get_prop d ''user'' = Inr u" and "u = Null \<or> truthy u"
  shows "session_consistent world0
     \<and> session_consistent (snd (initialize (Inr b) w)) = (b = Null \<or> truthy b)
     \<and> session_consistent (snd (initialize (Inr me) w))
     \<and> session_consistent (snd (initialize (Inl e) w))
     \<and> session_consistent (snd (login creds (Inr d) w))
     \<and> session_consistent (snd (login creds (Inl e) w))
     \<and> session_consistent (snd (register payload (Inr d) w))
     \<and> session_consistent (snd (register payload (Inl e) w))
     \<and> session_consistent (snd (logout (Inr x) w))
     \<and> session_consistent (snd (logout (Inl e) w))"
proof -
  from assms(1) have w: "user w = Null \<or> truthy (user w)"
    by (simp add: session_consistent_user)
  note me = assms(2) and u = assms(4)
  have 0: "session_consistent world0"
    by (simp add: session_consistent_user world0_def)
  have 1: "session_consistent (snd (initialize (Inr b) w)) = (b = Null \<or> truthy b)" for b
    by (simp add: session_consistent_user initialize_fulfilled)
  have 2: "session_consistent (snd (initialize (Inl e) w))"
    using w by (simp add: session_consistent_user initialize_rejected)
  have 3: "session_consistent (snd (login creds (Inr d) w))"
    using login_user_after [OF assms(3), of creds w] w u
    by (auto simp add: session_consistent_user)
  have 4: "session_consistent (snd (login creds (Inl e) w))"
    using w by (simp add: session_consistent_user login_rejected_user)
  have 5: "session_consistent (snd (register payload (Inr d) w))"
    using u by (simp add: session_consistent_user register_fulfilled [OF assms(3)])
  have 6: "session_consistent (snd (register payload (Inl e) w))"
    using w by (simp add: session_consistent_user register_rejected)
  have 7: "session_consistent (snd (logout (Inr x) w))"
    by (simp add: session_consistent_user logout_fulfilled)
  have 8: "session_consistent (snd (logout (Inl e) w))"
    using w by (simp add: session_consistent_user logout_rejected)
  from me 1 [of me] have m1: "session_consistent (snd (initialize (Inr me) w))" by blast
  from 0 1 [of b] m1 2 3 4 5 6 7 8 show ?thesis by blast
qed

theorem session_consistent_preserved_witness:
  "session_consistent (world0\<lparr>user := Obj [(''name'', Str (ascii ''omid''))]\<rparr>)
   \<and> (Obj [(''name'', Str (ascii ''sara''))] = Null \<or> truthy (Obj [(''name'', Str (ascii ''sara''))]))
   \<and> get_prop (Obj [(''user'', Obj [(''name'', Str (ascii ''sara''))]), (''token'', Num 7)]) ''user''
       = Inr (Obj [(''name'', Str (ascii ''sara''))])
   \<and> session_consistent (snd (initialize (Inr (Obj [(''name'', Str (ascii ''sara''))]))
        (world0\<lparr>user := Obj [(''name'', Str (ascii ''omid''))]\<rparr>)))
   \<and> session_consistent (snd (initialize (Inl (AxiosError (Some 401)))
        (world0\<lparr>user := Obj [(''name'', Str (ascii ''omid''))]\<rparr>)))
   \<and> session_consistent (snd (login
        (Obj [(''email'', Str (ascii ''a@b.c'')), (''password'', Str (ascii ''pw''))])
        (Inr (Obj [(''user'', Obj [(''name'', Str (ascii ''sara''))]), (''token'', Num 7)]))
        (world0\<lparr>user := Obj [(''name'', Str (ascii ''omid''))]\<rparr>)))
   \<and> user (snd (login
        (Obj [(''email'', Str (ascii ''a@b.c'')), (''password'', Str (ascii ''pw''))])
        (Inr (Obj [(''user'', Obj [(''name'', Str (ascii ''sara''))]), (''token'', Num 7)]))
        (world0\<lparr>user := Obj [(''name'', Str (ascii ''omid''))]\<rparr>)))
      = Obj [(''name'', Str (ascii ''sara''))]
   \<and> session_consistent (snd (login
        (Obj [(''email'', Str (ascii ''a@b.c'')), (''password'', Str (ascii ''pw''))])
        (Inl (AxiosError (Some 401)))
        (world0\<lparr>user := Obj [(''name'', Str (ascii ''omid''))]\<rparr>)))
   \<and> session_consistent (snd (register
        (Obj [(''name'', Str (ascii ''sara'')), (''email'', Str (ascii ''a@b.c'')),
              (''password'', Str (ascii ''pw''))])
        (Inr (Obj [(''user'', Obj [(''name'', Str (ascii ''sara''))]), (''token'', Num 7)]))
        (world0\<lparr>user := Obj [(''name'', Str (ascii ''omid''))]\<rparr>)))
   \<and> user (snd (register
        (Obj [(''name'', Str (ascii ''sara'')), (''email'', Str (ascii ''a@b.c'')),
              (''password'', Str (ascii ''pw''))])
        (Inr (Obj [(''user'', Obj [(''name'', Str (ascii ''sara''))]), (''token'', Num 7)]))
        (world0\<lparr>user := Obj [(''name'', Str (ascii ''omid''))]\<rparr>)))
      = Obj [(''name'', Str (ascii ''sara''))]
   \<and> session_consistent (snd (register
        (Obj [(''name'', Str (ascii ''sara'')), (''email'', Str (ascii ''a@b.c'')),
              (''password'', Str (ascii ''pw''))])
        (Inl (AxiosError (Some 401)))
        (world0\<lparr>user := Obj [(''name'', Str (ascii ''omid''))]\<rparr>)))
   \<and> session_consistent (snd (logout (Inr Null)
        (world0\<lparr>user := Obj [(''name'', Str (ascii ''omid''))]\<rparr>)))
   \<and> user (snd (logout (Inl (AxiosError (Some 401)))
        (world0\<lparr>user := Obj [(''name'', Str (ascii ''omid''))]\<rparr>)))
      = Obj [(''name'', Str (ascii ''omid''))]
   \<and> session_consistent (snd (logout (Inl (AxiosError (Some 401)))
        (world0\<lparr>user := Obj [(''name'', Str (ascii ''omid''))]\<rparr>)))"
proof -
  let ?w = "world0\<lparr>user := Obj [(''name'', Str (ascii ''omid''))]\<rparr>"
  let ?u = "Obj [(''name'', Str (ascii ''sara''))]"
  let ?d = "Obj [(''user'', ?u), (''token'', Num 7)]"
  let ?creds = "Obj [(''email'', Str (ascii ''a@b.c'')), (''password'', Str (ascii ''pw''))]"
  let ?payload = "Obj [(''name'', Str (ascii ''sara'')), (''email'', Str (ascii ''a@b.c'')),
              (''password'', Str (ascii ''pw''))]"
  have a: "session_consistent ?w"
    by (simp add: session_consistent_def is_logged_in_def ProfileMenu_def js_return_def
        dot_def await_def promise_then_def)
  have b: "?u = Null \<or> truthy ?u" by simp
  have c: "get_prop ?d ''user'' = Inr ?u" by simp
  have l: "user (snd (login ?creds (Inr ?d) ?w)) = ?u"
    by (simp add: login_def js_return_def dot_def await_def promise_then_def axios_post_def
        axios_send_def settle_def setUser_def)
  have r: "user (snd (register ?payload (Inr ?d) ?w)) = ?u"
    by (simp add: register_def js_return_def dot_def await_def promise_then_def axios_post_def
        axios_send_def settle_def setUser_def)
  have o: "user (snd (logout (Inl (AxiosError (Some 401))) ?w)) = Obj [(''name'', Str (ascii ''omid''))]"
    by (simp add: logout_def js_return_def await_def promise_then_def axios_post_def
        axios_send_def settle_def setUser_def)
  note t = session_consistent_preserved
    [OF a b c b, of ?u "AxiosError (Some 401)" ?creds ?payload Null]
  from a b c l r o t show ?thesis by blast
qed

text \<open>
  C8 as the specification states it, that every operation of the store keeps the
  stored user and the logged-in reading consistent, is false. The probe at mount is
  answered with status 200 and an empty body, which axios hands over as the empty
  string: the store holds the empty string, which is not null, and \<^verbatim>\<open>!user\<close> is
  true, so the login link is shown.
\<close>

theorem initialize_empty_body_breaks_consistency:
  "session_consistent world0
   \<and> user (snd (initialize (Inr (Str [])) world0)) = Str []
   \<and> fst (ProfileMenu (snd (initialize (Inr (Str [])) world0))) = Inr LoginLink
   \<and> \<not> session_consistent (snd (initialize (Inr (Str [])) world0))"
  by (simp add: session_consistent_def is_logged_in_def ProfileMenu_def world0_def
      initialize_fulfilled js_return_def)

text \<open>
  The same happens after a login whose answer has no \<^verbatim>\<open>user\<close> property (the store
  then holds undefined) and after a registration answered with \<^verbatim>\<open>user: false\<close>.
\<close>

lemma login_without_user_breaks_consistency:
  "user (snd (login (Obj [(''email'', Str (ascii ''a@b.c'')), (''password'', Str (ascii ''pw''))])
      (Inr (Obj [(''token'', Num 7)])) world0)) = Undefined
   \<and> \<not> session_consistent (snd (login
      (Obj [(''email'', Str (ascii ''a@b.c'')), (''password'', Str (ascii ''pw''))])
      (Inr (Obj [(''token'', Num 7)])) world0))"
proof -
  have "user (snd (login (Obj [(''email'', Str (ascii ''a@b.c'')), (''password'', Str (ascii ''pw''))])
      (Inr (Obj [(''token'', Num 7)])) world0)) = Undefined"
    by (simp add: login_def js_return_def dot_def await_def promise_then_def axios_post_def
        axios_send_def settle_def setUser_def)
  then show ?thesis by (simp add: session_consistent_user)
qed

lemma register_false_user_breaks_consistency:
  "\<not> session_consistent (snd (register (Obj [(''name'', Str (ascii ''sara''))])
      (Inr (Obj [(''user'', Bool False)])) world0))"
proof -
  have "get_prop (Obj [(''user'', Bool False)]) ''user'' = Inr (Bool False)" by simp
  from register_fulfilled [OF this]
  show ?thesis by (simp add: session_consistent_user)
qed

section \<open>The category page\<close>

lemma category_products_url_inj:
  "(category_products_url a = category_products_url b) = (a = b)"
  by (simp add: category_products_url_def)

lemma CategoryPage_effect_requests:
  "requests (snd (CategoryPage_effect cid net w)) =
     requests w @ [Request GET (category_products_url cid) None]"
  by (cases net) (simp_all add: CategoryPage_effect_def task_defs setter_defs)

lemma CategoryPage_effect_deps:
  "cat_deps (snd (CategoryPage_effect cid net w)) = cat_deps w"
  by (cases net) (simp_all add: CategoryPage_effect_def task_defs setter_defs)

lemma CategoryPage_render_deps: "cat_deps (CategoryPage_render cid net w) = Some cid"
  by (simp add: CategoryPage_render_def CategoryPage_effect_deps)

lemma CategoryPage_render_requests:
  "requests (CategoryPage_render cid net w) =
     requests w @ (if cat_deps w = Some cid then [] else [Request GET (category_products_url cid) None])"
  by (simp add: CategoryPage_render_def CategoryPage_effect_requests)

lemma map_remdups_adj_head:
  "map f (remdups_adj (x # xs)) = f x # map f (tl (remdups_adj (x # xs)))"
proof -
  have "map f (x # tl (remdups_adj (x # xs))) = f x # map f (tl (remdups_adj (x # xs)))"
    by (simp only: list.map)
  then show ?thesis by (simp only: remdups_adj_Cons_alt)
qed

lemma CategoryPage_renders_mounted:
  "cat_deps w = Some c \<Longrightarrow>
     requests (CategoryPage_renders rs w) =
       requests w @ map (\<lambda>cid. Request GET (category_products_url cid) None)
                      (tl (remdups_adj (c # map fst rs)))"
proof (induction rs arbitrary: w c)
  case Nil
  then show ?case by simp
next
  case (Cons r rs)
  obtain cid net where r: "r = (cid, net)" by (cases r)
  let ?w = "CategoryPage_render cid net w"
  let ?R = "\<lambda>cid. Request GET (category_products_url cid) None"
  have deps: "cat_deps ?w = Some cid" by (rule CategoryPage_render_deps)
  have ih: "requests (CategoryPage_renders rs ?w) =
      requests ?w @ map ?R (tl (remdups_adj (cid # map fst rs)))"
    by (rule Cons.IH [OF deps])
  show ?case
  proof (cases "c = cid")
    case True
    with Cons.prems have "requests ?w = requests w"
      by (simp add: CategoryPage_render_requests)
    with ih True r show ?thesis by simp
  next
    case False
    with Cons.prems have A: "requests ?w = requests w @ [?R cid]"
      by (simp add: CategoryPage_render_requests)
    have B: "tl (remdups_adj (c # map fst (r # rs))) = remdups_adj (cid # map fst rs)"
      using False r by simp
    have C: "map ?R (remdups_adj (cid # map fst rs)) =
        ?R cid # map ?R (tl (remdups_adj (cid # map fst rs)))"
      by (rule map_remdups_adj_head)
    have "requests (CategoryPage_renders (r # rs) w) = requests (CategoryPage_renders rs ?w)"
      by (simp add: r)
    also have "\<dots> = requests w @ [?R cid] @ map ?R (tl (remdups_adj (cid # map fst rs)))"
      by (simp only: ih A append_assoc)
    also have "\<dots> = requests w @ map ?R (remdups_adj (cid # map fst rs))"
      by (simp only: C append_Cons append_Nil)
    finally show ?thesis by (simp only: B)
  qed
qed

text \<open>
  C9. The category page is mounted (no effect has run yet) and is rendered any
  number of times, each time with the \<^verbatim>\<open>id\<close> of the path. The requests it makes are
  exactly these: one GET of \<^verbatim>\<open>/categories/<id>/products\<close> for the first render, and
  one for each render whose \<^verbatim>\<open>id\<close> differs from that of the render before; a render
  with the same \<^verbatim>\<open>id\<close> makes none. Different ids give different addresses.
\<close>

theorem CategoryPage_one_request_per_id_change:
  assumes "cat_deps w = None"
  shows "requests (CategoryPage_renders rs w) =
           requests w @ map (\<lambda>cid. Request GET (category_products_url cid) None)
                          (remdups_adj (map fst rs))
       \<and> requests (CategoryPage_render cid net w) =
           requests w @ [Request GET (category_products_url cid) None]
       \<and> (category_products_url a = category_products_url b) = (a = b)"
proof -
  let ?R = "\<lambda>cid. Request GET (category_products_url cid) None"
  have first: "requests (CategoryPage_render c n w) = requests w @ [?R c]" for c n
    using assms by (simp add: CategoryPage_render_requests)
  have "requests (CategoryPage_renders rs w) = requests w @ map ?R (remdups_adj (map fst rs))"
  proof (cases rs)
    case Nil
    then show ?thesis by simp
  next
    case (Cons r rs')
    obtain c n where r: "r = (c, n)" by (cases r)
    have rest: "requests (CategoryPage_renders rs' (CategoryPage_render c n w)) =
        requests (CategoryPage_render c n w) @ map ?R (tl (remdups_adj (c # map fst rs')))"
      by (rule CategoryPage_renders_mounted [OF CategoryPage_render_deps])
    have C: "map ?R (remdups_adj (c # map fst rs')) =
        ?R c # map ?R (tl (remdups_adj (c # map fst rs')))"
      by (rule map_remdups_adj_head)
    have "requests (CategoryPage_renders rs w) =
        requests (CategoryPage_renders rs' (CategoryPage_render c n w))"
      by (simp add: Cons r)
    also have "\<dots> = requests w @ [?R c] @ map ?R (tl (remdups_adj (c # map fst rs')))"
      by (simp only: rest first append_assoc)
    also have "\<dots> = requests w @ map ?R (remdups_adj (c # map fst rs'))"
      by (simp only: C append_Cons append_Nil)
    also have "remdups_adj (c # map fst rs') = remdups_adj (map fst rs)"
      by (simp add: Cons r)
    finally show ?thesis .
  qed
  with first [of cid net] show ?thesis
    by (simp only: category_products_url_inj simp_thms)
qed

theorem CategoryPage_one_request_per_id_change_witness:
  "cat_deps world0 = None
   \<and> requests (CategoryPage_renders
        [(ascii ''11'', Inr (Arr [])), (ascii ''11'', Inr (Arr [])), (ascii ''12'', Inl (AxiosError None)),
         (ascii ''12'', Inr (Arr []))] world0)
      = [Request GET (ascii ''/categories/11/products'') None,
         Request GET (ascii ''/categories/12/products'') None]"
proof -
  have h: "cat_deps world0 = None" by (simp add: world0_def)
  have u: "category_products_url (ascii ''11'') = ascii ''/categories/11/products''"
     "category_products_url (ascii ''12'') = ascii ''/categories/12/products''"
    by (simp_all add: category_products_url_def ascii_def)
  have i: "ascii ''11'' \<noteq> ascii ''12''" by (simp add: ascii_def)
  have r: "requests world0 = []" by (simp add: world0_def)
  from CategoryPage_one_request_per_id_change [OF h,
      of "[(ascii ''11'', Inr (Arr [])), (ascii ''11'', Inr (Arr [])), (ascii ''12'', Inl (AxiosError None)),
         (ascii ''12'', Inr (Arr []))]"]
  have "requests (CategoryPage_renders
        [(ascii ''11'', Inr (Arr [])), (ascii ''11'', Inr (Arr [])), (ascii ''12'', Inl (AxiosError None)),
         (ascii ''12'', Inr (Arr []))] world0)
      = [Request GET (category_products_url (ascii ''11'')) None,
         Request GET (category_products_url (ascii ''12'')) None]"
    using i r by simp
  with h u show ?thesis by simp
qed

section \<open>Where an alert is raised\<close>

text \<open>
  The two forms are the only callers of \<^verbatim>\<open>alert\<close>: a rejected login or registration
  raises one alert and does not navigate; a successful one navigates to the home
  page and raises none.
\<close>

lemma LoginPage_submit_rejected:
  "alerts (snd (LoginPage_submit email password (Inl e) w)) = alerts w @ [login_failed]
   \<and> navigations (snd (LoginPage_submit email password (Inl e) w)) = navigations w
   \<and> user (snd (LoginPage_submit email password (Inl e) w)) = user w"
  by (simp add: LoginPage_submit_def login_def task_defs setter_defs)

lemma LoginPage_submit_fulfilled:
  assumes "get_prop d ''user'' = Inr u"
  shows "alerts (snd (LoginPage_submit email password (Inr d) w)) = alerts w
   \<and> navigations (snd (LoginPage_submit email password (Inr d) w)) = navigations w @ [ascii ''/'']
   \<and> user (snd (LoginPage_submit email password (Inr d) w)) = u"
  using assms by (simp add: LoginPage_submit_def login_def task_defs setter_defs)

lemma RegisterPage_submit_rejected:
  "alerts (snd (RegisterPage_submit name email password (Inl e) w)) = alerts w @ [register_failed]
   \<and> navigations (snd (RegisterPage_submit name email password (Inl e) w)) = navigations w
   \<and> user (snd (RegisterPage_submit name email password (Inl e) w)) = user w"
  by (simp add: RegisterPage_submit_def register_def task_defs setter_defs)

end
